theory Spec2Isabelle
  imports Main
begin

section \<open>Dates\<close>

text \<open>
  A JavaScript \<open>Date\<close> is a number of milliseconds since the epoch. The handlers read
  and write it in the server's local time zone, which is taken to be UTC without daylight
  saving; request fields arrive as strings and are modelled by the \<open>Date\<close> they parse to
  (a missing or empty field is \<open>None\<close>).
\<close>

type_synonym jsdate = int

definition msPerMinute :: int where
  "msPerMinute = 60000"

definition msPerHour :: int where
  "msPerHour = 3600000"

definition msPerDay :: int where
  "msPerDay = 86400000"

definition getHours :: "jsdate \<Rightarrow> int" where
  "getHours t = (t mod msPerDay) div msPerHour"

definition getMinutes :: "jsdate \<Rightarrow> int" where
  "getMinutes t = (t mod msPerHour) div msPerMinute"

text \<open>\<open>d.setHours(h, m, 0, 0)\<close>: the day of \<open>d\<close> at \<open>h:m:00.000\<close>.\<close>

definition setHours :: "jsdate \<Rightarrow> int \<Rightarrow> int \<Rightarrow> jsdate" where
  "setHours t h m = t - t mod msPerDay + h * msPerHour + m * msPerMinute"

text \<open>\<open>d.getDay()\<close>: 0 is Sunday; the epoch was a Thursday.\<close>

definition getDay :: "jsdate \<Rightarrow> int" where
  "getDay t = (t div msPerDay + 4) mod 7"

definition addDays :: "jsdate \<Rightarrow> int \<Rightarrow> jsdate" where
  "addDays t n = t + n * msPerDay"

definition addWeeks :: "jsdate \<Rightarrow> int \<Rightarrow> jsdate" where
  "addWeeks t n = addDays t (n * 7)"

definition isBefore :: "jsdate \<Rightarrow> jsdate \<Rightarrow> bool" where
  "isBefore a b = (a < b)"

section \<open>Documents and the database\<close>

text \<open>
  A document of the \<open>bookings\<close> collection, with the fields the conflict logic reads.
  The title, description, requester, group id and creation time ride along in the source
  and are left out. \<open>bid\<close> is \<open>_id\<close>, absent until the document is inserted.
\<close>

record booking =
  bid :: "nat option"
  room :: string
  date :: jsdate
  startTime :: jsdate
  endTime :: jsdate
  status :: string

record db =
  bookings :: "booking list"
  rooms :: "string list"
  adminUsers :: nat
  nextId :: nat

section \<open>The conflict query\<close>

text \<open>The \<open>$or\<close> of the two clauses on the stored start and end times.\<close>

definition timeClauses :: "booking \<Rightarrow> jsdate \<Rightarrow> jsdate \<Rightarrow> bool" where
  "timeClauses e startDateTime endDateTime =
     ((startTime e < endDateTime \<and> endTime e > startDateTime)
      \<or> (startTime e \<ge> startDateTime \<and> endTime e \<le> endDateTime))"

definition conflictQuery :: "string \<Rightarrow> jsdate \<Rightarrow> jsdate \<Rightarrow> jsdate \<Rightarrow> booking \<Rightarrow> bool" where
  "conflictQuery roomId day startDateTime endDateTime e =
     (room e = roomId \<and> date e = day \<and> status e \<noteq> ''rejected''
      \<and> timeClauses e startDateTime endDateTime)"

text \<open>
  \<open>checkConflicts(date, start, end)\<close>, the same closure in both booking handlers:
  \<open>findOne\<close> returns the first stored document that matches.
\<close>

definition checkConflicts :: "db \<Rightarrow> string \<Rightarrow> jsdate \<Rightarrow> jsdate \<Rightarrow> jsdate \<Rightarrow> booking option" where
  "checkConflicts d roomId dt start end =
     (let startDateTime = setHours dt (getHours start) (getMinutes start);
          endDateTime = setHours dt (getHours end) (getMinutes end)
      in find (conflictQuery roomId (setHours dt 0 0) startDateTime endDateTime) (bookings d))"

text \<open>
  The overlap rule in the specification's words: two intervals on one date overlap iff
  \<open>a.startTime < b.endTime\<close> and \<open>b.startTime < a.endTime\<close>.
\<close>

definition overlap_spec :: "jsdate \<times> jsdate \<Rightarrow> jsdate \<times> jsdate \<Rightarrow> bool" where
  "overlap_spec a b = (fst a < snd b \<and> fst b < snd a)"

section \<open>Requests and responses\<close>

text \<open>
  The JSON body of a booking request (\<open>BookingRequest\<close> on the admin route, the untyped
  \<open>bookingData\<close> on the user route). A weekly schedule is an object keyed by day name;
  its entries are kept in the order \<open>Object.entries\<close> lists them.
\<close>

record daySchedule =
  ds_startTime :: "jsdate option"
  ds_endTime :: "jsdate option"
  enabled :: bool

type_synonym weeklySchedule = "(string \<times> daySchedule) list"

datatype repeatType = RepeatNone | Daily | Weekly

record bookingRequest =
  req_room :: string
  req_title :: string
  req_date :: "jsdate option"
  req_startTime :: "jsdate option"
  req_endTime :: "jsdate option"
  req_status :: "string option"
  req_repeatType :: repeatType
  req_repeatEndDate :: "jsdate option"
  req_weeklySchedule :: "weeklySchedule option"

text \<open>
  The responses of the handlers, one constructor per message; a message that formats dates
  with \<open>format\<close> carries the dates it formats.
\<close>

datatype response =
    Unauthorized
  | MissingFields
  | TimesRequired
  | EndBeforeStart
  | WeeklyScheduleRequired
  | EndBeforeStartFor string
  | NoEnabledDay
  | RoomNotFound
  | EndBeforeStartDaily
  | OutsideHours
  | ConflictBetween jsdate jsdate jsdate
  | ConflictOn jsdate
  | ConflictSlot
  | InternalError
  | AdminCreated nat
  | UserCreated "booking list" string
  | BookingNotFound
  | StatusUpdated string
  | Deleted

text \<open>The HTTP status each response is sent with.\<close>

fun statusCode :: "response \<Rightarrow> nat" where
  "statusCode Unauthorized = 401"
| "statusCode MissingFields = 400"
| "statusCode TimesRequired = 400"
| "statusCode EndBeforeStart = 400"
| "statusCode WeeklyScheduleRequired = 400"
| "statusCode (EndBeforeStartFor day) = 400"
| "statusCode NoEnabledDay = 400"
| "statusCode RoomNotFound = 404"
| "statusCode EndBeforeStartDaily = 400"
| "statusCode OutsideHours = 400"
| "statusCode (ConflictBetween d s e) = 409"
| "statusCode (ConflictOn d) = 409"
| "statusCode ConflictSlot = 409"
| "statusCode InternalError = 500"
| "statusCode (AdminCreated n) = 200"
| "statusCode (UserCreated bs st) = 201"
| "statusCode BookingNotFound = 404"
| "statusCode (StatusUpdated st) = 200"
| "statusCode Deleted = 200"

section \<open>Writing to the collection\<close>

text \<open>
  Modelled from the spec: the \<open>Booking\<close> model and the database driver are not among the
  sources; an insert gives the document a fresh \<open>_id\<close> and appends it as it is
  (\<open>insertReservations(batch) \<rightarrow> committed IDs\<close>).
\<close>

definition insertOne :: "db \<Rightarrow> booking \<Rightarrow> db" where
  "insertOne d b =
     d\<lparr>bookings := bookings d @ [b\<lparr>bid := Some (nextId d)\<rparr>], nextId := Suc (nextId d)\<rparr>"

fun insertMany :: "db \<Rightarrow> booking list \<Rightarrow> db" where
  "insertMany d [] = d"
| "insertMany d (b # bs) = insertMany (insertOne d b) bs"



section \<open>The admin route\<close>

text \<open>The "simple hour comparison" \<open>endHour <= startHour\<close>, made when both times are given.\<close>

definition hourCheckFails :: "jsdate option \<Rightarrow> jsdate option \<Rightarrow> bool" where
  "hourCheckFails s e =
     (case (s, e) of (Some st, Some en) \<Rightarrow> getHours en \<le> getHours st | _ \<Rightarrow> False)"

text \<open>
  The loop over the entries of the weekly schedule: it returns at the first enabled day
  whose hours fail, and otherwise tells whether some day is enabled. The hours of a missing
  time are \<open>NaN\<close>, which no comparison rejects.
\<close>

fun validateWeekly :: "weeklySchedule \<Rightarrow> bool \<Rightarrow> response + bool" where
  "validateWeekly [] hasEnabledDay = Inr hasEnabledDay"
| "validateWeekly ((day, schedule) # rest) hasEnabledDay =
     (if enabled schedule
      then (if hourCheckFails (ds_startTime schedule) (ds_endTime schedule)
            then Inl (EndBeforeStartFor day)
            else validateWeekly rest True)
      else validateWeekly rest hasEnabledDay)"

text \<open>
  "Validate times based on repeat type". The source compares the two time strings with
  \<open><=\<close>; for timestamps in one ISO format that is the order of the dates they denote.
\<close>

definition adminValidate :: "bookingRequest \<Rightarrow> response option" where
  "adminValidate req =
     (if req_repeatType req \<noteq> Weekly
      then (case (req_startTime req, req_endTime req) of
              (Some st, Some en) \<Rightarrow> if en \<le> st then Some EndBeforeStart else None
            | _ \<Rightarrow> Some TimesRequired)
      else (case req_weeklySchedule req of
              None \<Rightarrow> Some WeeklyScheduleRequired
            | Some ws \<Rightarrow>
                (case validateWeekly ws False of
                   Inl err \<Rightarrow> Some err
                 | Inr hasEnabledDay \<Rightarrow> if hasEnabledDay then None else Some NoEnabledDay)))"

text \<open>
  \<open>baseBooking\<close>, which every booking of the batch spreads; the status defaults to
  approved. Each booking sets its own start and end time.
\<close>

definition baseBooking :: "bookingRequest \<Rightarrow> jsdate \<Rightarrow> booking" where
  "baseBooking req dt =
     \<lparr>bid = None, room = req_room req, date = dt, startTime = dt, endTime = dt,
      status = (case req_status req of None \<Rightarrow> ''approved'' | Some s \<Rightarrow> s)\<rparr>"

text \<open>The initial booking, pushed whenever both times are given.\<close>

definition adminInitial :: "booking \<Rightarrow> bookingRequest \<Rightarrow> jsdate \<Rightarrow> booking list" where
  "adminInitial base req d =
     (case (req_startTime req, req_endTime req) of
        (Some st, Some en) \<Rightarrow>
          [base\<lparr>startTime := setHours d (getHours st) (getMinutes st),
                endTime := setHours d (getHours en) (getMinutes en)\<rparr>]
      | _ \<Rightarrow> [])"

text \<open>The daily loop: \<open>while (isBefore(currentDate, endRepeatDate))\<close>, a day at a time.\<close>

function adminDailyLoop :: "booking \<Rightarrow> jsdate \<Rightarrow> jsdate \<Rightarrow> jsdate \<Rightarrow> jsdate \<Rightarrow> booking list" where
  "adminDailyLoop base startTimeObj endTimeObj currentDate endRepeatDate =
     (if isBefore currentDate endRepeatDate
      then base\<lparr>date := setHours currentDate 0 0,
                        startTime := setHours currentDate (getHours startTimeObj) (getMinutes startTimeObj),
                        endTime := setHours currentDate (getHours endTimeObj) (getMinutes endTimeObj)\<rparr>
           # adminDailyLoop base startTimeObj endTimeObj (addDays currentDate 1) endRepeatDate
      else [])"
  by pat_completeness auto
termination
  by (relation "measure (\<lambda>(b, s, e, c, u). nat (u - c))")
     (auto simp: isBefore_def addDays_def msPerDay_def)

definition dayNames :: "string list" where
  "dayNames = [''sunday'', ''monday'', ''tuesday'', ''wednesday'', ''thursday'', ''friday'',
               ''saturday'']"

text \<open>
  The test of the weekly loop,
  \<open>daySchedule && daySchedule.enabled && daySchedule.startTime && daySchedule.endTime\<close>
  for the schedule of the weekday of \<open>currentDate\<close>: the window to book, if it holds.
\<close>

definition dayWindow :: "weeklySchedule \<Rightarrow> jsdate \<Rightarrow> (jsdate \<times> jsdate) option" where
  "dayWindow ws currentDate =
     (case map_of ws (dayNames ! nat (getDay currentDate)) of
        None \<Rightarrow> None
      | Some daySchedule \<Rightarrow>
          (case (enabled daySchedule, ds_startTime daySchedule, ds_endTime daySchedule) of
             (True, Some st, Some en) \<Rightarrow> Some (st, en)
           | _ \<Rightarrow> None))"

text \<open>
  The weekly loop. When a booking is pushed, the three \<open>currentDate.setHours\<close> calls leave
  \<open>currentDate\<close> at that day's end time, and the next day is counted from there.
\<close>

function adminWeeklyLoop :: "booking \<Rightarrow> weeklySchedule \<Rightarrow> jsdate \<Rightarrow> jsdate \<Rightarrow> booking list" where
  "adminWeeklyLoop base ws currentDate endRepeatDate =
     (if isBefore currentDate endRepeatDate
      then (case dayWindow ws currentDate of
              None \<Rightarrow> adminWeeklyLoop base ws (addDays currentDate 1) endRepeatDate
            | Some w \<Rightarrow>
                base\<lparr>date := setHours currentDate 0 0,
                     startTime := setHours currentDate (getHours (fst w)) (getMinutes (fst w)),
                     endTime := setHours currentDate (getHours (snd w)) (getMinutes (snd w))\<rparr>
                # adminWeeklyLoop base ws
                    (addDays (setHours currentDate (getHours (snd w)) (getMinutes (snd w))) 1)
                    endRepeatDate)
      else [])"
  by pat_completeness auto
termination
proof -
  have nonneg: "0 \<le> getHours t \<and> 0 \<le> getMinutes t" for t
    by (simp add: getHours_def getMinutes_def msPerDay_def msPerHour_def msPerMinute_def
          pos_imp_zdiv_nonneg_iff)
  have "c mod msPerDay < msPerDay" for c :: int
    by (simp add: msPerDay_def)
  then have "c < addDays (setHours c h m) 1" if "0 \<le> h \<and> 0 \<le> m" for c h m
    using that by (simp add: addDays_def setHours_def msPerHour_def msPerMinute_def add_strict_increasing2)
  then have step: "c < addDays (setHours c (getHours t) (getMinutes t)) 1" for c t
    using nonneg by blast
  have step1: "c < addDays c 1" for c
    by (simp add: addDays_def msPerDay_def)
  show ?thesis
    by (relation "measure (\<lambda>(b, ws, c, u). nat (u - c))")
       (auto simp: isBefore_def step step1)
qed

text \<open>"Handle repeating bookings": the bookings pushed after the initial one.\<close>

definition adminRepeating :: "booking \<Rightarrow> bookingRequest \<Rightarrow> jsdate \<Rightarrow> response + booking list" where
  "adminRepeating base req d =
     (case req_repeatEndDate req of
        None \<Rightarrow> Inr []
      | Some endRepeatDate \<Rightarrow>
          (case req_repeatType req of
             RepeatNone \<Rightarrow> Inr []
           | Daily \<Rightarrow>
               (case (req_startTime req, req_endTime req) of
                  (Some st, Some en) \<Rightarrow>
                    if getHours en \<le> getHours st then Inl EndBeforeStartDaily
                    else Inr (adminDailyLoop base st en (addDays d 1) endRepeatDate)
                | _ \<Rightarrow> Inr [])
           | Weekly \<Rightarrow>
               (case req_weeklySchedule req of
                  None \<Rightarrow> Inr []
                | Some ws \<Rightarrow> Inr (adminWeeklyLoop base ws d endRepeatDate))))"

text \<open>"Check for conflicts with all bookings", in the order they were pushed.\<close>

fun firstConflict :: "db \<Rightarrow> string \<Rightarrow> booking list \<Rightarrow> booking option" where
  "firstConflict d roomId [] = None"
| "firstConflict d roomId (b # bs) =
     (case checkConflicts d roomId (date b) (startTime b) (endTime b) of
        Some conflict \<Rightarrow> Some conflict
      | None \<Rightarrow> firstConflict d roomId bs)"

text \<open>
  \<open>checkConflicts\<close> sets its \<open>date\<close> argument to midnight in place. The initial booking
  shares the \<open>Date\<close> object of \<open>baseBooking\<close>, so once the checks have run every booking
  in the batch carries the midnight of its day.
\<close>

definition afterChecks :: "booking list \<Rightarrow> booking list" where
  "afterChecks bs = map (\<lambda>b. b\<lparr>date := setHours (date b) 0 0\<rparr>) bs"

text \<open>
  \<open>POST /api/admin/bookings\<close>, up to the list \<open>bookingsToCreate\<close>: the checks that
  answer early, and the expansion of the request. The session is the role of the signed-in
  user, if any.
\<close>

definition adminPrepare :: "string option \<Rightarrow> bookingRequest \<Rightarrow> db \<Rightarrow> response + booking list" where
  "adminPrepare session req d =
     (if session \<noteq> Some ''admin'' then Inl Unauthorized
      else (case req_date req of
        None \<Rightarrow> Inl MissingFields
      | Some dt \<Rightarrow>
          (if req_room req = [] \<or> req_title req = [] then Inl MissingFields
           else (case adminValidate req of
             Some err \<Rightarrow> Inl err
           | None \<Rightarrow>
               (if req_room req \<notin> set (rooms d) then Inl RoomNotFound
                else if hourCheckFails (req_startTime req) (req_endTime req)
                then Inl EndBeforeStart
                else (case adminRepeating (baseBooking req dt) req dt of
                        Inl err \<Rightarrow> Inl err
                      | Inr repeated \<Rightarrow>
                          Inr (adminInitial (baseBooking req dt) req dt @ repeated)))))))"

text \<open>
  The rest of the handler: the conflict checks over the whole list, then one
  \<open>insertMany\<close>. The driver's \<open>insertMany\<close> throws on an empty batch, which the handler
  answers with 500.
\<close>

definition adminPOST :: "string option \<Rightarrow> bookingRequest \<Rightarrow> db \<Rightarrow> response \<times> db" where
  "adminPOST session req d =
     (case adminPrepare session req d of
        Inl err \<Rightarrow> (err, d)
      | Inr bookingsToCreate \<Rightarrow>
          (case firstConflict d (req_room req) bookingsToCreate of
             Some conflict \<Rightarrow>
               (ConflictBetween (date conflict) (startTime conflict) (endTime conflict), d)
           | None \<Rightarrow>
               (if bookingsToCreate = [] then (InternalError, d)
                else (AdminCreated (length bookingsToCreate),
                      insertMany d (afterChecks bookingsToCreate)))))"



section \<open>The user route\<close>

text \<open>One step of a repeat: \<open>addDays(currentDate, 1)\<close> or \<open>addWeeks(currentDate, 1)\<close>.\<close>

fun advance :: "repeatType \<Rightarrow> jsdate \<Rightarrow> jsdate" where
  "advance Weekly currentDate = addWeeks currentDate 1"
| "advance _ currentDate = addDays currentDate 1"

text \<open>
  "Check for conflicts for all dates before creating any bookings": the first loop of the
  daily and of the weekly branch, which differ in the step only.
\<close>

function userCheckLoop :: "db \<Rightarrow> string \<Rightarrow> jsdate \<Rightarrow> jsdate \<Rightarrow> repeatType \<Rightarrow> jsdate \<Rightarrow> jsdate \<Rightarrow> booking option" where
  "userCheckLoop d roomId st en rt currentDate endDate =
     (if currentDate \<le> endDate
      then (case checkConflicts d roomId currentDate st en of
              Some conflict \<Rightarrow> Some conflict
            | None \<Rightarrow> userCheckLoop d roomId st en rt (advance rt currentDate) endDate)
      else None)"
  by pat_completeness auto
termination
proof -
  have adv: "c < advance rt c" for rt c
    by (cases rt) (simp_all add: addDays_def addWeeks_def msPerDay_def)
  have "nat (u - advance rt c + 1) < nat (u - c + 1)" if "c \<le> u" for rt c u
    using adv [where c = c and rt = rt] that by arith
  then show ?thesis
    by (relation "measure (\<lambda>(d, r, s, e, rt, c, u). nat (u - c + 1))") auto
qed

text \<open>"Now create the bookings since no conflicts were found": the second loop.\<close>

function userCreateLoop :: "db \<Rightarrow> booking \<Rightarrow> repeatType \<Rightarrow> jsdate \<Rightarrow> jsdate \<Rightarrow> booking list \<times> db" where
  "userCreateLoop d baseBookingData rt currentDate endDate =
     (if currentDate \<le> endDate
      then (let doc = baseBookingData\<lparr>bid := Some (nextId d), date := currentDate\<rparr>;
                rest = userCreateLoop (insertOne d doc) baseBookingData rt
                         (advance rt currentDate) endDate
            in (doc # fst rest, snd rest))
      else ([], d))"
  by pat_completeness auto
termination
proof -
  have adv: "c < advance rt c" for rt c
    by (cases rt) (simp_all add: addDays_def addWeeks_def msPerDay_def)
  have "nat (u - advance rt c + 1) < nat (u - c + 1)" if "c \<le> u" for rt c u
    using adv [where c = c and rt = rt] that by arith
  then show ?thesis
    by (relation "measure (\<lambda>(d, b, rt, c, u). nat (u - c + 1))") auto
qed

text \<open>The three branches on the repeat type.\<close>

definition userSchedule :: "db \<Rightarrow> booking \<Rightarrow> bookingRequest \<Rightarrow> response + booking list \<times> db" where
  "userSchedule d baseBookingData bookingData =
     (case req_repeatType bookingData of
        RepeatNone \<Rightarrow>
          (case checkConflicts d (room baseBookingData) (date baseBookingData)
                  (startTime baseBookingData) (endTime baseBookingData) of
             Some conflict \<Rightarrow> Inl ConflictSlot
           | None \<Rightarrow>
               Inr ([baseBookingData\<lparr>bid := Some (nextId d)\<rparr>], insertOne d baseBookingData))
      | rt \<Rightarrow>
          (case req_repeatEndDate bookingData of
             None \<Rightarrow> Inr ([], d)
           | Some endDate \<Rightarrow>
               (case userCheckLoop d (room baseBookingData) (startTime baseBookingData)
                       (endTime baseBookingData) rt (date baseBookingData) endDate of
                  Some conflict \<Rightarrow> Inl (ConflictOn (date conflict))
                | None \<Rightarrow>
                    Inr (userCreateLoop d baseBookingData rt (date baseBookingData) endDate))))"

text \<open>
  \<open>POST /api/bookings\<close>, up to \<open>baseBookingData\<close>: the checks that answer early. The
  stored document spreads the request, so it keeps the start and end times as they were
  sent; an admin's booking is approved at once.
\<close>

definition userPrepare :: "string option \<Rightarrow> bookingRequest \<Rightarrow> response + booking" where
  "userPrepare session bookingData =
     (case session of
        None \<Rightarrow> Inl Unauthorized
      | Some role \<Rightarrow>
          (case (req_startTime bookingData, req_endTime bookingData, req_date bookingData) of
             (Some st, Some en, Some dt) \<Rightarrow>
               (if req_room bookingData = [] \<or> req_title bookingData = [] then Inl MissingFields
                else if getHours st < 8 \<or> (getHours en > 21 \<or> (getHours en = 21 \<and> getMinutes en > 0))
                then Inl OutsideHours
                else if en \<le> st then Inl EndBeforeStart
                else Inr \<lparr>bid = None, room = req_room bookingData, date = dt,
                       startTime = st, endTime = en,
                       status = (if role = ''admin'' then ''approved'' else ''pending'')\<rparr>)
           | _ \<Rightarrow> Inl MissingFields))"

text \<open>
  The rest of the handler. A pending request is announced to every admin user with
  \<open>relatedBooking: bookings[0]._id\<close>, which throws when nothing was created; the handler
  answers that with 500.
\<close>

definition userPOST :: "string option \<Rightarrow> bookingRequest \<Rightarrow> db \<Rightarrow> response \<times> db" where
  "userPOST session bookingData d =
     (case userPrepare session bookingData of
        Inl err \<Rightarrow> (err, d)
      | Inr baseBookingData \<Rightarrow>
          (case userSchedule d baseBookingData bookingData of
             Inl err \<Rightarrow> (err, d)
           | Inr (created, d') \<Rightarrow>
               (if status baseBookingData = ''pending'' \<and> 0 < adminUsers d' \<and> created = []
                then (InternalError, d')
                else (UserCreated created (status baseBookingData), d'))))"

section \<open>Notions of the specification\<close>

text \<open>
  The dates a repeating request of the user route expands to: the values \<open>currentDate\<close>
  takes in each \<open>while\<close> of its branch.
\<close>

function datesLoop :: "repeatType \<Rightarrow> jsdate \<Rightarrow> jsdate \<Rightarrow> jsdate list" where
  "datesLoop rt currentDate endDate =
     (if currentDate \<le> endDate
      then currentDate # datesLoop rt (advance rt currentDate) endDate
      else [])"
  by pat_completeness auto
termination
proof -
  have adv: "c < advance rt c" for rt c
    by (cases rt) (simp_all add: addDays_def addWeeks_def msPerDay_def)
  have "nat (u - advance rt c + 1) < nat (u - c + 1)" if "c \<le> u" for rt c u
    using adv [where c = c and rt = rt] that by arith
  then show ?thesis
    by (relation "measure (\<lambda>(rt, c, u). nat (u - c + 1))") auto
qed

text \<open>The step of a repeat of the user route, in milliseconds.\<close>

fun stepMs :: "repeatType \<Rightarrow> int" where
  "stepMs Weekly = 7 * msPerDay"
| "stepMs _ = msPerDay"

definition userOccurrences :: "bookingRequest \<Rightarrow> booking \<Rightarrow> jsdate list" where
  "userOccurrences bookingData baseBookingData =
     (case req_repeatType bookingData of
        RepeatNone \<Rightarrow> [date baseBookingData]
      | rt \<Rightarrow> (case req_repeatEndDate bookingData of
                 None \<Rightarrow> []
               | Some endDate \<Rightarrow> datesLoop rt (date baseBookingData) endDate))"

text \<open>
  The calendar date and the clock time of a \<open>Date\<close>: the day number, and the milliseconds
  since that day's midnight.
\<close>

definition dayOf :: "jsdate \<Rightarrow> int" where
  "dayOf t = t div msPerDay"

definition timeOfDay :: "jsdate \<Rightarrow> int" where
  "timeOfDay t = t mod msPerDay"

text \<open>
  "For a fixed resource and date, no two reservations with status other than rejected have
  overlapping intervals". The interval of a reservation is read as the specification has
  it: the calendar date of its \<open>date\<close> field, with the clock times of its start and end.
\<close>

definition clash :: "booking \<Rightarrow> booking \<Rightarrow> bool" where
  "clash a b =
     (room a = room b \<and> dayOf (date a) = dayOf (date b)
      \<and> status a \<noteq> ''rejected'' \<and> status b \<noteq> ''rejected''
      \<and> overlap_spec (timeOfDay (startTime a), timeOfDay (endTime a))
                      (timeOfDay (startTime b), timeOfDay (endTime b)))"


text \<open>
  A document as the admin route writes it: the \<open>date\<close> field is a midnight, and the start
  and end time are moments of that day.
\<close>

definition onItsDay :: "booking \<Rightarrow> bool" where
  "onItsDay e =
     (setHours (date e) 0 0 = date e \<and> dayOf (startTime e) = dayOf (date e)
      \<and> dayOf (endTime e) = dayOf (date e))"

text \<open>
  A booking whose start and end time lie on the day of its date, at whole minutes: the
  window \<open>checkConflicts\<close> builds for it is its own.
\<close>

definition aligned :: "booking \<Rightarrow> bool" where
  "aligned b = (setHours (date b) (getHours (startTime b)) (getMinutes (startTime b)) = startTime b
              \<and> setHours (date b) (getHours (endTime b)) (getMinutes (endTime b)) = endTime b)"

declare adminDailyLoop.simps [simp del]
declare adminWeeklyLoop.simps [simp del]
declare userCheckLoop.simps [simp del]
declare userCreateLoop.simps [simp del]
declare datesLoop.simps [simp del]

section \<open>Facts about dates\<close>

lemma getHours_range: "0 \<le> getHours t \<and> getHours t < 24"
  unfolding getHours_def msPerDay_def msPerHour_def by arith
  
lemma getMinutes_range: "0 \<le> getMinutes t \<and> getMinutes t < 60"
  unfolding getMinutes_def msPerHour_def msPerMinute_def by arith

lemma setHours_mod:
  assumes "0 \<le> h" "h < 24" "0 \<le> m" "m < 60"
  shows "setHours t h m mod msPerDay = h * msPerHour + m * msPerMinute"
proof -
  have "setHours t h m = (h * msPerHour + m * msPerMinute) + (t div msPerDay) * msPerDay"
    by (simp add: setHours_def minus_mod_eq_div_mult)
  moreover have "0 \<le> h * msPerHour + m * msPerMinute" "h * msPerHour + m * msPerMinute < msPerDay"
    using assms by (simp_all add: msPerHour_def msPerMinute_def msPerDay_def)
  ultimately show ?thesis by simp
qed

lemma setHours_setHours:
  assumes "0 \<le> h" "h < 24" "0 \<le> m" "m < 60"
  shows "setHours (setHours t h m) h' m' = setHours t h' m'"
  using setHours_mod [OF assms, of t] by (simp add: setHours_def)

lemma getHours_setHours:
  assumes "0 \<le> h" "h < 24" "0 \<le> m" "m < 60"
  shows "getHours (setHours t h m) = h"
proof -
  have "(m * msPerMinute + h * msPerHour) div msPerHour = h"
    using assms by (simp add: msPerHour_def msPerMinute_def)
  then show ?thesis
    using setHours_mod [OF assms, of t] by (simp add: getHours_def add.commute)
qed

lemma getMinutes_setHours:
  assumes "0 \<le> h" "h < 24" "0 \<le> m" "m < 60"
  shows "getMinutes (setHours t h m) = m"
proof -
  have "setHours t h m = m * msPerMinute + (h + 24 * (t div msPerDay)) * msPerHour"
    by (simp add: setHours_def minus_mod_eq_div_mult msPerDay_def msPerHour_def algebra_simps)
  moreover have "0 \<le> m * msPerMinute" "m * msPerMinute < msPerHour"
    using assms by (simp_all add: msPerHour_def msPerMinute_def)
  ultimately have "setHours t h m mod msPerHour = m * msPerMinute"
    by simp
  then show ?thesis
    by (simp add: getMinutes_def msPerMinute_def)
qed



lemma window_fixed:
  assumes "setHours dt 0 0 = setHours t 0 0"
  shows "setHours dt (getHours (setHours t (getHours s) (getMinutes s)))
           (getMinutes (setHours t (getHours s) (getMinutes s)))
         = setHours t (getHours s) (getMinutes s)"
proof -
  have r: "0 \<le> getHours s" "getHours s < 24" "0 \<le> getMinutes s" "getMinutes s < 60"
    using getHours_range [of s] getMinutes_range [of s] by simp_all
  have "setHours dt h m = setHours t h m" for h m
    using assms by (simp add: setHours_def)
  then show ?thesis
    by (simp add: getHours_setHours [OF r] getMinutes_setHours [OF r])
qed

lemma setHours_midnight_idem: "setHours (setHours t 0 0) 0 0 = setHours t 0 0"
  by (simp add: setHours_setHours)







section \<open>Facts about the conflict checks\<close>

lemma checkConflicts_None:
  "checkConflicts d roomId dt st en = None \<longleftrightarrow>
     (\<forall>e\<in>set (bookings d). \<not> conflictQuery roomId (setHours dt 0 0)
        (setHours dt (getHours st) (getMinutes st)) (setHours dt (getHours en) (getMinutes en)) e)"
  by (auto simp: checkConflicts_def find_None_iff)


lemma userCheckLoop_None:
  "userCheckLoop d roomId st en rt cur u = None \<longleftrightarrow>
     (\<forall>c\<in>set (datesLoop rt cur u). checkConflicts d roomId c st en = None)"
proof (induction d roomId st en rt cur u rule: userCheckLoop.induct)
  case (1 d roomId st en rt cur u)
  show ?case
  proof (cases "cur \<le> u")
    case True
    then show ?thesis
      using 1 by (subst userCheckLoop.simps, subst datesLoop.simps) (auto split: option.splits)
  next
    case False
    then show ?thesis
      by (subst userCheckLoop.simps, subst datesLoop.simps) simp
  qed
qed

lemma checkConflicts_hit:
  "checkConflicts d roomId dt st en = Some c \<Longrightarrow>
     c \<in> set (bookings d)
     \<and> conflictQuery roomId (setHours dt 0 0) (setHours dt (getHours st) (getMinutes st))
           (setHours dt (getHours en) (getMinutes en)) c"
  by (auto simp: checkConflicts_def find_Some_iff)

lemma firstConflict_hit:
  "firstConflict d roomId bs = Some c \<Longrightarrow>
     \<exists>b\<in>set bs. checkConflicts d roomId (date b) (startTime b) (endTime b) = Some c"
  by (induction bs) (auto split: option.splits)

lemma userCheckLoop_hit:
  "userCheckLoop d roomId st en rt cur u = Some c \<Longrightarrow>
     \<exists>x\<in>set (datesLoop rt cur u). checkConflicts d roomId x st en = Some c"
proof (induction d roomId st en rt cur u rule: userCheckLoop.induct)
  case (1 d roomId st en rt cur u)
  show ?case
  proof (cases "cur \<le> u")
    case False
    then show ?thesis using "1.prems" by (subst (asm) userCheckLoop.simps) simp
  next
    case True
    show ?thesis
    proof (cases "checkConflicts d roomId cur st en")
      case (Some c')
      then have "c' = c"
        using "1.prems" True by (subst (asm) userCheckLoop.simps) simp
      then show ?thesis
        using Some True by (subst datesLoop.simps) simp
    next
      case None
      then have "userCheckLoop d roomId st en rt (advance rt cur) u = Some c"
        using "1.prems" True by (subst (asm) userCheckLoop.simps) simp
      then show ?thesis
        using "1.IH" [OF True None] True by (subst datesLoop.simps) simp
    qed
  qed
qed

section \<open>Facts about the two routes\<close>

lemma adminInitial_aligned:
  "b \<in> set (adminInitial base req dt) \<Longrightarrow> date base = dt \<Longrightarrow> aligned b \<and> room b = room base"
  by (auto simp: adminInitial_def aligned_def window_fixed split: option.splits)

lemma adminDailyLoop_aligned:
  "b \<in> set (adminDailyLoop base st en cur u) \<Longrightarrow> aligned b \<and> room b = room base"
proof (induction base st en cur u rule: adminDailyLoop.induct)
  case (1 base st en cur u)
  from "1.prems" show ?case
    by (subst (asm) adminDailyLoop.simps)
       (auto simp: aligned_def window_fixed setHours_midnight_idem split: if_splits dest: "1.IH")
qed

lemma adminWeeklyLoop_aligned:
  "b \<in> set (adminWeeklyLoop base ws cur u) \<Longrightarrow> aligned b \<and> room b = room base"
proof (induction base ws cur u rule: adminWeeklyLoop.induct)
  case (1 base ws cur u)
  from "1.prems" show ?case
    by (subst (asm) adminWeeklyLoop.simps)
       (auto simp: aligned_def window_fixed setHours_midnight_idem
             split: if_splits option.splits dest: "1.IH")
qed

lemma adminRepeating_aligned:
  "adminRepeating base req dt = Inr bs \<Longrightarrow> b \<in> set bs \<Longrightarrow> aligned b \<and> room b = room base"
  by (auto simp: adminRepeating_def split: option.splits repeatType.splits if_splits
           dest: adminDailyLoop_aligned adminWeeklyLoop_aligned)

lemma adminPrepare_Inr:
  assumes "adminPrepare session req d = Inr bs"
  shows "\<exists>dt repeated. session = Some ''admin'' \<and> req_date req = Some dt
           \<and> adminValidate req = None
           \<and> \<not> hourCheckFails (req_startTime req) (req_endTime req)
           \<and> adminRepeating (baseBooking req dt) req dt = Inr repeated
           \<and> bs = adminInitial (baseBooking req dt) req dt @ repeated"
proof -
  from assms have "session = Some ''admin''"
    by (simp add: adminPrepare_def split: if_splits)
  moreover from assms obtain dt where "req_date req = Some dt"
    by (cases "req_date req") (simp_all add: adminPrepare_def split: if_splits)
  moreover from assms calculation have "adminValidate req = None"
    by (cases "adminValidate req") (simp_all add: adminPrepare_def split: if_splits)
  moreover from assms calculation have "\<not> hourCheckFails (req_startTime req) (req_endTime req)"
    by (simp add: adminPrepare_def split: if_splits)
  moreover from assms calculation obtain repeated where
    "adminRepeating (baseBooking req dt) req dt = Inr repeated"
    "bs = adminInitial (baseBooking req dt) req dt @ repeated"
    by (cases "adminRepeating (baseBooking req dt) req dt")
       (auto simp add: adminPrepare_def split: if_splits)
  ultimately show ?thesis by blast
qed

lemma adminPrepare_aligned:
  assumes "adminPrepare session req d = Inr bs" "b \<in> set bs"
  shows "aligned b \<and> room b = req_room req"
proof -
  obtain dt repeated where *: "adminRepeating (baseBooking req dt) req dt = Inr repeated"
      "bs = adminInitial (baseBooking req dt) req dt @ repeated"
    using adminPrepare_Inr [OF assms(1)] by blast
  have "date (baseBooking req dt) = dt" "room (baseBooking req dt) = req_room req"
    by (simp_all add: baseBooking_def)
  then show ?thesis
    using assms(2) * adminRepeating_aligned [OF *(1)] adminInitial_aligned [of b _ req dt]
    by auto
qed

lemma validateWeekly_Inl: "validateWeekly ws h = Inl err \<Longrightarrow> statusCode err = 400"
  by (induction ws h rule: validateWeekly.induct) (auto split: if_splits)

lemma adminValidate_Some: "adminValidate req = Some err \<Longrightarrow> statusCode err = 400"
  by (auto simp: adminValidate_def split: option.splits if_splits sum.splits
           dest: validateWeekly_Inl)

lemma adminRepeating_Inl: "adminRepeating base req dt = Inl err \<Longrightarrow> statusCode err = 400"
  by (auto simp: adminRepeating_def split: option.splits if_splits repeatType.splits)

lemma adminPrepare_Inl:
  assumes "adminPrepare session req d = Inl err"
  shows "statusCode err \<noteq> 409"
proof (cases "session = Some ''admin''")
  case False
  then show ?thesis using assms by (simp add: adminPrepare_def)
next
  case adm: True
  show ?thesis
  proof (cases "req_date req")
    case None
    then show ?thesis using assms adm by (simp add: adminPrepare_def)
  next
    case (Some dt)
    show ?thesis
    proof (cases "adminValidate req")
      case (Some v)
      then show ?thesis
        using assms adm \<open>req_date req = Some dt\<close> adminValidate_Some [OF Some]
        by (auto simp: adminPrepare_def split: if_splits)
    next
      case None
      show ?thesis
      proof (cases "adminRepeating (baseBooking req dt) req dt")
        case (Inl r)
        then show ?thesis
          using assms adm \<open>req_date req = Some dt\<close> None adminRepeating_Inl [OF Inl]
          by (auto simp: adminPrepare_def split: if_splits)
      next
        case (Inr r)
        then show ?thesis
          using assms adm \<open>req_date req = Some dt\<close> None
          by (auto simp: adminPrepare_def split: if_splits)
      qed
    qed
  qed
qed

lemma admin_conflict_message:
  assumes "statusCode (fst (adminPOST session req d)) = 409"
  shows "\<exists>bs. adminPrepare session req d = Inr bs
           \<and> (\<exists>b\<in>set bs. \<exists>c\<in>set (bookings d).
                 room c = req_room req \<and> date c = setHours (date b) 0 0
                 \<and> status c \<noteq> ''rejected''
                 \<and> (startTime c < endTime b \<and> startTime b < endTime c
                      \<or> startTime b \<le> startTime c \<and> endTime c \<le> endTime b)
                 \<and> fst (adminPOST session req d)
                      = ConflictBetween (date c) (startTime c) (endTime c))"
proof (cases "adminPrepare session req d")
  case (Inl err)
  then show ?thesis
    using assms adminPrepare_Inl [OF Inl] by (simp add: adminPOST_def)
next
  case (Inr bs)
  show ?thesis
  proof (cases "firstConflict d (req_room req) bs")
    case None
    then show ?thesis using assms Inr by (simp add: adminPOST_def split: if_splits)
  next
    case (Some c)
    then obtain b where b: "b \<in> set bs"
        "checkConflicts d (req_room req) (date b) (startTime b) (endTime b) = Some c"
      using firstConflict_hit by blast
    have "aligned b"
      using adminPrepare_aligned [OF Inr b(1)] by simp
    then have q: "c \<in> set (bookings d)"
        "conflictQuery (req_room req) (setHours (date b) 0 0) (startTime b) (endTime b) c"
      using checkConflicts_hit [OF b(2)] by (simp_all add: aligned_def)
    have "room c = req_room req \<and> date c = setHours (date b) 0 0 \<and> status c \<noteq> ''rejected''
        \<and> (startTime c < endTime b \<and> startTime b < endTime c
             \<or> startTime b \<le> startTime c \<and> endTime c \<le> endTime b)"
      using q(2) by (simp add: conflictQuery_def timeClauses_def)
    moreover have "fst (adminPOST session req d)
        = ConflictBetween (date c) (startTime c) (endTime c)"
      using Inr Some by (simp add: adminPOST_def)
    ultimately show ?thesis
      using Inr b(1) q(1) by blast
  qed
qed

lemma userSchedule_repeat:
  "req_repeatType req \<noteq> RepeatNone \<Longrightarrow> req_repeatEndDate req = Some u \<Longrightarrow>
   userSchedule d base req =
     (case userCheckLoop d (room base) (startTime base) (endTime base) (req_repeatType req)
             (date base) u of
        Some conflict \<Rightarrow> Inl (ConflictOn (date conflict))
      | None \<Rightarrow> Inr (userCreateLoop d base (req_repeatType req) (date base) u))"
  by (cases "req_repeatType req") (auto simp: userSchedule_def split: option.splits)

lemma userSchedule_no_end:
  "req_repeatType req \<noteq> RepeatNone \<Longrightarrow> req_repeatEndDate req = None \<Longrightarrow>
   userSchedule d base req = Inr ([], d)"
  by (cases "req_repeatType req") (simp_all add: userSchedule_def)

lemma userSchedule_single:
  "req_repeatType req = RepeatNone \<Longrightarrow>
   userSchedule d base req =
     (case checkConflicts d (room base) (date base) (startTime base) (endTime base) of
        Some conflict \<Rightarrow> Inl ConflictSlot
      | None \<Rightarrow> Inr ([base\<lparr>bid := Some (nextId d)\<rparr>], insertOne d base))"
  by (simp add: userSchedule_def)

lemma userOccurrences_repeat:
  "req_repeatType req \<noteq> RepeatNone \<Longrightarrow> req_repeatEndDate req = Some u \<Longrightarrow>
   userOccurrences req base = datesLoop (req_repeatType req) (date base) u"
  by (cases "req_repeatType req") (simp_all add: userOccurrences_def)

lemma userPrepare_Inr:
  assumes "userPrepare session req = Inr base"
  shows "\<exists>role st en dt. session = Some role \<and> req_startTime req = Some st
           \<and> req_endTime req = Some en \<and> req_date req = Some dt
           \<and> \<not> getHours st < 8 \<and> \<not> getHours en > 21 \<and> \<not> (getHours en = 21 \<and> getMinutes en > 0)
           \<and> st < en
           \<and> base = \<lparr>bid = None, room = req_room req, date = dt, startTime = st, endTime = en,
                      status = (if role = ''admin'' then ''approved'' else ''pending'')\<rparr>"
  using assms by (auto simp: userPrepare_def split: option.splits if_splits)

lemma userPrepare_room: "userPrepare session req = Inr base \<Longrightarrow> room base = req_room req"
  using userPrepare_Inr by fastforce

lemma userPrepare_Inl: "userPrepare session req = Inl err \<Longrightarrow> statusCode err \<noteq> 409"
  by (auto simp: userPrepare_def split: option.splits if_splits)

lemma user_outside_hours:
  assumes "session = Some role" "req_startTime req = Some st" "req_endTime req = Some en"
    "req_date req = Some dt" "req_room req \<noteq> []" "req_title req \<noteq> []"
    "getHours st < 8 \<or> 21 < getHours en \<or> (getHours en = 21 \<and> 0 < getMinutes en)"
  shows "userPOST session req d = (OutsideHours, d)"
  using assms by (auto simp: userPOST_def userPrepare_def)

lemma userSchedule_Inl:
  assumes "userSchedule d base req = Inl err"
  shows "\<exists>x\<in>set (userOccurrences req base). \<exists>c.
           checkConflicts d (room base) x (startTime base) (endTime base) = Some c
           \<and> err = (if req_repeatType req = RepeatNone then ConflictSlot else ConflictOn (date c))"
proof (cases "req_repeatType req = RepeatNone")
  case True
  then show ?thesis
    using assms by (auto simp: userSchedule_single userOccurrences_def split: option.splits)
next
  case False
  show ?thesis
  proof (cases "req_repeatEndDate req")
    case None
    then show ?thesis using assms False by (simp add: userSchedule_no_end)
  next
    case (Some u)
    then obtain c where c: "userCheckLoop d (room base) (startTime base) (endTime base)
          (req_repeatType req) (date base) u = Some c" "err = ConflictOn (date c)"
      using assms False by (auto simp: userSchedule_repeat split: option.splits)
    then show ?thesis
      using userCheckLoop_hit [OF c(1)] False Some by (auto simp: userOccurrences_repeat)
  qed
qed

lemma userPOST_409:
  assumes "statusCode (fst (userPOST session req d)) = 409"
  shows "\<exists>base err. userPrepare session req = Inr base \<and> userSchedule d base req = Inl err
           \<and> fst (userPOST session req d) = err"
proof (cases "userPrepare session req")
  case (Inl err)
  then show ?thesis using assms userPrepare_Inl [OF Inl] by (simp add: userPOST_def)
next
  case (Inr base)
  then show ?thesis
    using assms by (cases "userSchedule d base req") (auto simp: userPOST_def split: if_splits)
qed

lemma user_conflict_message:
  assumes "statusCode (fst (userPOST session req d)) = 409"
  shows "\<exists>base. userPrepare session req = Inr base
           \<and> (\<exists>x\<in>set (userOccurrences req base). \<exists>c\<in>set (bookings d).
                 room c = req_room req \<and> date c = setHours x 0 0 \<and> status c \<noteq> ''rejected''
                 \<and> (startTime c < setHours x (getHours (endTime base)) (getMinutes (endTime base))
                        \<and> setHours x (getHours (startTime base)) (getMinutes (startTime base))
                            < endTime c
                      \<or> setHours x (getHours (startTime base)) (getMinutes (startTime base))
                            \<le> startTime c
                        \<and> endTime c
                            \<le> setHours x (getHours (endTime base)) (getMinutes (endTime base)))
                 \<and> fst (userPOST session req d)
                      = (if req_repeatType req = RepeatNone then ConflictSlot
                         else ConflictOn (date c)))"
proof -
  obtain base err where *: "userPrepare session req = Inr base" "userSchedule d base req = Inl err"
      "fst (userPOST session req d) = err"
    using userPOST_409 [OF assms] by blast
  obtain x c where xc: "x \<in> set (userOccurrences req base)"
      "checkConflicts d (room base) x (startTime base) (endTime base) = Some c"
      "err = (if req_repeatType req = RepeatNone then ConflictSlot else ConflictOn (date c))"
    using userSchedule_Inl [OF *(2)] by blast
  have q: "c \<in> set (bookings d)"
      "conflictQuery (req_room req) (setHours x 0 0)
           (setHours x (getHours (startTime base)) (getMinutes (startTime base)))
           (setHours x (getHours (endTime base)) (getMinutes (endTime base))) c"
    using checkConflicts_hit [OF xc(2)] userPrepare_room [OF *(1)] by simp_all
  have "room c = req_room req \<and> date c = setHours x 0 0 \<and> status c \<noteq> ''rejected''
      \<and> (startTime c < setHours x (getHours (endTime base)) (getMinutes (endTime base))
             \<and> setHours x (getHours (startTime base)) (getMinutes (startTime base)) < endTime c
           \<or> setHours x (getHours (startTime base)) (getMinutes (startTime base)) \<le> startTime c
             \<and> endTime c \<le> setHours x (getHours (endTime base)) (getMinutes (endTime base)))"
    using q(2) by (simp add: conflictQuery_def timeClauses_def)
  moreover have "fst (userPOST session req d)
      = (if req_repeatType req = RepeatNone then ConflictSlot else ConflictOn (date c))"
    using *(3) xc(3) by simp
  ultimately show ?thesis
    using *(1) xc(1) q(1) by blast
qed

lemma userCheckLoop_past: "u < cur \<Longrightarrow> userCheckLoop d roomId st en rt cur u = None"
  by (subst userCheckLoop.simps) simp

lemma userCreateLoop_past: "u < cur \<Longrightarrow> userCreateLoop d base rt cur u = ([], d)"
  by (subst userCreateLoop.simps) simp

lemma adminDailyLoop_past: "u \<le> cur \<Longrightarrow> adminDailyLoop base st en cur u = []"
  by (subst adminDailyLoop.simps) (simp add: isBefore_def)

lemma adminValidate_times:
  assumes "adminValidate req = None" "req_repeatType req \<noteq> Weekly"
  shows "\<exists>st en. req_startTime req = Some st \<and> req_endTime req = Some en \<and> st < en"
  using assms by (auto simp: adminValidate_def split: option.splits if_splits)

lemma user_reversed_range:
  assumes "userPrepare session req = Inr base" "req_repeatType req = Daily"
    "req_repeatEndDate req = Some u" "u < date base"
  shows "snd (userPOST session req d) = d
         \<and> (status base = ''approved'' \<or> adminUsers d = 0
            \<longrightarrow> fst (userPOST session req d) = UserCreated [] (status base))"
proof -
  have "userSchedule d base req = Inr ([], d)"
    using assms(2-4) by (simp add: userSchedule_repeat userCheckLoop_past userCreateLoop_past)
  then show ?thesis
    using assms(1) by (auto simp: userPOST_def)
qed

lemma admin_reversed_range:
  assumes "adminPrepare session req d = Inr bs" "req_repeatType req = Daily"
    "req_repeatEndDate req = Some u" "req_date req = Some dt" "u < dt"
  shows "length bs = 1
         \<and> (statusCode (fst (adminPOST session req d)) = 409
            \<or> adminPOST session req d = (AdminCreated 1, insertMany d (afterChecks bs)))"
proof -
  obtain dt' repeated where *: "req_date req = Some dt'" "adminValidate req = None"
      "adminRepeating (baseBooking req dt') req dt' = Inr repeated"
      "bs = adminInitial (baseBooking req dt') req dt' @ repeated"
    using adminPrepare_Inr [OF assms(1)] by blast
  have dt: "dt' = dt" using *(1) assms(4) by simp
  obtain st en where se: "req_startTime req = Some st" "req_endTime req = Some en"
    using adminValidate_times [OF *(2)] assms(2) by auto
  have "u \<le> addDays dt 1"
    using assms(5) by (simp add: addDays_def msPerDay_def)
  then have "repeated = []"
    using *(3) assms(2,3) se dt by (auto simp: adminRepeating_def adminDailyLoop_past split: if_splits)
  then have len: "length bs = 1"
    using *(4) se by (simp add: adminInitial_def)
  show ?thesis
  proof (cases "firstConflict d (req_room req) bs")
    case None
    then show ?thesis
      using assms(1) len by (auto simp: adminPOST_def)
  next
    case (Some c)
    then show ?thesis
      using assms(1) len by (simp add: adminPOST_def)
  qed
qed

section \<open>Facts about the expansion\<close>

lemma advance_stepMs: "advance rt c = c + stepMs rt"
  by (cases rt) (simp_all add: addDays_def addWeeks_def)

lemma stepMs_pos: "0 < stepMs rt"
  by (cases rt) (simp_all add: msPerDay_def)

lemma div_step_back:
  assumes "0 < (s::int)"
  shows "(x - (c + s)) div s = (x - c) div s - 1"
proof -
  have "(x - c) div s = ((x - (c + s)) + s) div s"
    by (simp add: algebra_simps)
  also have "\<dots> = (x - (c + s)) div s + 1"
    using assms div_add_self2 [of s "x - (c + s)"] by simp
  finally show ?thesis by simp
qed

lemma length_datesLoop:
  "length (datesLoop rt cur u) = nat ((u - cur) div stepMs rt + 1)"
proof (induction rt cur u rule: datesLoop.induct)
  case (1 rt cur u)
  show ?case
  proof (cases "cur \<le> u")
    case True
    have "(u - (cur + stepMs rt)) div stepMs rt = (u - cur) div stepMs rt - 1"
      by (rule div_step_back [OF stepMs_pos])
    moreover have "0 \<le> (u - cur) div stepMs rt"
      using True stepMs_pos [of rt] by (simp add: pos_imp_zdiv_nonneg_iff)
    ultimately show ?thesis
      using True "1.IH" [OF True]
      by (subst datesLoop.simps) (simp add: advance_stepMs nat_add_distrib)
  next
    case False
    then have "(u - cur) div stepMs rt < 0"
      using stepMs_pos [of rt] by (simp add: div_neg_pos_less0)
    then show ?thesis
      using False by (subst datesLoop.simps) simp
  qed
qed

lemma datesLoop_step:
  "cur \<le> u \<Longrightarrow> datesLoop rt cur u = cur # datesLoop rt (advance rt cur) u"
  by (subst datesLoop.simps) simp

lemma datesLoop_past: "u < cur \<Longrightarrow> datesLoop rt cur u = []"
  by (subst datesLoop.simps) simp

lemma userCreateLoop_step:
  "cur \<le> u \<Longrightarrow>
   userCreateLoop d base rt cur u =
     (base\<lparr>bid := Some (nextId d), date := cur\<rparr>
        # fst (userCreateLoop (insertOne d (base\<lparr>bid := Some (nextId d), date := cur\<rparr>))
                 base rt (advance rt cur) u),
      snd (userCreateLoop (insertOne d (base\<lparr>bid := Some (nextId d), date := cur\<rparr>))
             base rt (advance rt cur) u))"
  by (subst userCreateLoop.simps) (simp add: Let_def)

lemma userCreateLoop_bookings:
  "length (bookings (snd (userCreateLoop d base rt cur u)))
     = length (bookings d) + length (datesLoop rt cur u)
   \<and> length (fst (userCreateLoop d base rt cur u)) = length (datesLoop rt cur u)"
proof (induction d base rt cur u rule: userCreateLoop.induct)
  case (1 d base rt cur u)
  show ?case
  proof (cases "cur \<le> u")
    case True
    then show ?thesis
      using "1.IH" [OF True refl]
      by (simp add: userCreateLoop_step datesLoop_step insertOne_def)
  next
    case False
    then show ?thesis
      by (simp add: userCreateLoop_past datesLoop_past)
  qed
qed

lemma checkConflicts_free_room:
  assumes "\<forall>e\<in>set (bookings d). room e \<noteq> roomId \<or> status e = ''rejected''"
  shows "checkConflicts d roomId dt st en = None"
  using assms by (auto simp: checkConflicts_None conflictQuery_def)

lemma user_repeat_count:
  assumes "userPrepare session req = Inr base" "req_repeatType req \<noteq> RepeatNone"
    "req_repeatEndDate req = Some u" "date base \<le> u"
    "\<forall>e\<in>set (bookings d). room e \<noteq> req_room req \<or> status e = ''rejected''"
  shows "statusCode (fst (userPOST session req d)) = 201
         \<and> length (bookings (snd (userPOST session req d)))
             = length (bookings d) + nat ((u - date base) div stepMs (req_repeatType req)) + 1"
proof -
  let ?rt = "req_repeatType req"
  obtain created d' where cr: "userCreateLoop d base ?rt (date base) u = (created, d')"
    by (cases "userCreateLoop d base ?rt (date base) u")
  have "userCheckLoop d (room base) (startTime base) (endTime base) ?rt (date base) u = None"
    using assms(1,5) by (simp add: userCheckLoop_None checkConflicts_free_room userPrepare_room)
  then have sch: "userSchedule d base req = Inr (created, d')"
    using assms(2,3) cr by (simp add: userSchedule_repeat)
  have "0 \<le> (u - date base) div stepMs ?rt"
    using assms(4) stepMs_pos [of ?rt] by (simp add: pos_imp_zdiv_nonneg_iff)
  then have len: "length (datesLoop ?rt (date base) u) = nat ((u - date base) div stepMs ?rt) + 1"
    by (simp add: length_datesLoop nat_add_distrib)
  have l1: "length (bookings d') = length (bookings d) + length (datesLoop ?rt (date base) u)"
    and l2: "length created = length (datesLoop ?rt (date base) u)"
    using userCreateLoop_bookings [of d base ?rt "date base" u] cr by simp_all
  have "created \<noteq> []"
    using l2 len by auto
  then show ?thesis
    using assms(1) sch len l1 by (simp add: userPOST_def)
qed

lemma userPrepare_any_end:
  "userPrepare session (req\<lparr>req_repeatEndDate := x\<rparr>) = userPrepare session req"
  by (auto simp: userPrepare_def split: option.splits)

lemma adminRepeating_Inl_any_end:
  "adminRepeating base (req\<lparr>req_repeatEndDate := Some u\<rparr>) dt = Inl err
   \<Longrightarrow> adminRepeating base (req\<lparr>req_repeatEndDate := Some u'\<rparr>) dt = Inl err"
  by (auto simp: adminRepeating_def split: repeatType.splits option.splits if_splits)

lemma adminPrepare_unfold:
  "adminPrepare session req d =
     (if session \<noteq> Some ''admin'' then Inl Unauthorized
      else case req_date req of
        None \<Rightarrow> Inl MissingFields
      | Some dt \<Rightarrow>
          if req_room req = [] \<or> req_title req = [] then Inl MissingFields
          else case adminValidate req of
            Some err \<Rightarrow> Inl err
          | None \<Rightarrow>
              if req_room req \<notin> set (rooms d) then Inl RoomNotFound
              else if hourCheckFails (req_startTime req) (req_endTime req) then Inl EndBeforeStart
              else map_sum id ((@) (adminInitial (baseBooking req dt) req dt))
                     (adminRepeating (baseBooking req dt) req dt))"
  by (auto simp: adminPrepare_def split: option.splits sum.splits)

lemma adminPrepare_any_end:
  assumes "adminPrepare session (req\<lparr>req_repeatEndDate := Some u\<rparr>) d = Inl err"
  shows "adminPrepare session (req\<lparr>req_repeatEndDate := Some u'\<rparr>) d = Inl err"
proof -
  have v: "adminValidate (req\<lparr>req_repeatEndDate := x\<rparr>) = adminValidate req" for x
    by (simp add: adminValidate_def)
  have b: "baseBooking (req\<lparr>req_repeatEndDate := x\<rparr>) dt = baseBooking req dt" for x dt
    by (simp add: baseBooking_def)
  have i: "adminInitial base (req\<lparr>req_repeatEndDate := x\<rparr>) dt = adminInitial base req dt"
    for x base dt
    by (simp add: adminInitial_def)
  have r: "map_sum id f (adminRepeating base (req\<lparr>req_repeatEndDate := Some u\<rparr>) dt) = Inl err
        \<Longrightarrow> map_sum id f (adminRepeating base (req\<lparr>req_repeatEndDate := Some u'\<rparr>) dt) = Inl err"
    for f base dt
    using adminRepeating_Inl_any_end [where base = base and req = req and u = u and dt = dt and u' = u']
    by (cases "adminRepeating base (req\<lparr>req_repeatEndDate := Some u\<rparr>) dt") auto
  show ?thesis
    using assms
    by (auto simp: adminPrepare_unfold v b i split: if_splits option.splits intro: r)
qed

section \<open>Facts about the invariant\<close>



lemma clash_bid [simp]: "clash (a\<lparr>bid := i\<rparr>) b = clash a b" "clash a (b\<lparr>bid := i\<rparr>) = clash a b"
  by (simp_all add: clash_def)









lemma onItsDay_bid [simp]: "onItsDay (b\<lparr>bid := i\<rparr>) = onItsDay b"
  by (simp add: onItsDay_def)

lemma onItsDay_status [simp]: "onItsDay (b\<lparr>status := st\<rparr>) = onItsDay b"
  by (simp add: onItsDay_def)



















section \<open>No double booking\<close>




section \<open>A conflict aborts the whole batch\<close>

text \<open>
  Claim C2. Room r1 holds an approved booking from 10:00 to 11:00 on 2024-01-01, and a
  professor asks for the same room and day from 09:00:00 to 10:00:30. The occurrence
  overlaps the stored booking, and the claim has the request fail with a conflict and the
  store left as it was. The handler builds the window of its check from the hours and
  minutes of the two times, looks for a conflict with 09:00 to 10:00, finds none, and
  stores the booking with the times as they were sent.
\<close>

theorem user_check_drops_the_seconds:
  "userPOST (Some ''professor'')
     \<lparr>req_room = ''r1'', req_title = ''seminar'', req_date = Some 1704067200000,
      req_startTime = Some 1704099600000, req_endTime = Some 1704103230000, req_status = None,
      req_repeatType = RepeatNone, req_repeatEndDate = None, req_weeklySchedule = None\<rparr>
     \<lparr>bookings = [\<lparr>bid = Some 0, room = ''r1'', date = 1704067200000,
        startTime = 1704103200000, endTime = 1704106800000, status = ''approved''\<rparr>],
      rooms = [''r1''], adminUsers = 1, nextId = 1\<rparr>
   = (UserCreated
        [\<lparr>bid = Some 1, room = ''r1'', date = 1704067200000, startTime = 1704099600000,
           endTime = 1704103230000, status = ''pending''\<rparr>] ''pending'',
      \<lparr>bookings =
         [\<lparr>bid = Some 0, room = ''r1'', date = 1704067200000,
            startTime = 1704103200000, endTime = 1704106800000, status = ''approved''\<rparr>,
          \<lparr>bid = Some 1, room = ''r1'', date = 1704067200000, startTime = 1704099600000,
            endTime = 1704103230000, status = ''pending''\<rparr>],
       rooms = [''r1''], adminUsers = 1, nextId = 2\<rparr>)
   \<and> overlap_spec (1704103200000, 1704106800000) (1704099600000, 1704103230000)"
  by code_simp

section \<open>The two clauses and the half-open test\<close>

text \<open>
  Claim C3. For a stored booking and a proposed interval, each with start before end, the
  two-clause test of the conflict query holds exactly when the half-open overlap test
  holds; and when one interval ends where the other starts there is no conflict.
\<close>

theorem conflict_clauses_are_half_open_overlap:
  assumes "startTime e < endTime e" and "s < t"
  shows "(timeClauses e s t \<longleftrightarrow> overlap_spec (startTime e, endTime e) (s, t))
         \<and> (endTime e = s \<longrightarrow> \<not> timeClauses e s t)
         \<and> (startTime e = t \<longrightarrow> \<not> timeClauses e s t)"
  using assms by (auto simp: timeClauses_def overlap_spec_def)

theorem conflict_clauses_are_half_open_overlap_witness:
  "timeClauses \<lparr>bid = None, room = ''r1'', date = 0, startTime = 9, endTime = 11,
                 status = ''approved''\<rparr> 10 12
   \<and> \<not> timeClauses \<lparr>bid = None, room = ''r1'', date = 0, startTime = 9, endTime = 10,
                 status = ''approved''\<rparr> 10 12"
  using conflict_clauses_are_half_open_overlap
    [of "\<lparr>bid = None, room = ''r1'', date = 0, startTime = 9, endTime = 11,
          status = ''approved''\<rparr>" 10 12]
    conflict_clauses_are_half_open_overlap
    [of "\<lparr>bid = None, room = ''r1'', date = 0, startTime = 9, endTime = 10,
          status = ''approved''\<rparr>" 10 12]
  by (simp add: overlap_spec_def)

section \<open>Daily expansion on the admin route\<close>

text \<open>
  Claim C4. A daily request from 2024-01-01 until 2024-01-05, 09:00 to 10:00, on an empty
  store: the claim asks for five occurrences, one for each day up to and including the end
  date. The admin route's loop runs while \<open>currentDate\<close> is strictly before the end date
  and creates four, the last one on 2024-01-04.
\<close>

theorem admin_daily_stops_before_end_date:
  "adminPOST (Some ''admin'')
     \<lparr>req_room = ''r1'', req_title = ''lecture'', req_date = Some 1704067200000,
      req_startTime = Some 1704099600000, req_endTime = Some 1704103200000, req_status = None,
      req_repeatType = Daily, req_repeatEndDate = Some 1704412800000,
      req_weeklySchedule = None\<rparr>
     \<lparr>bookings = [], rooms = [''r1''], adminUsers = 1, nextId = 0\<rparr>
   = (AdminCreated 4,
      \<lparr>bookings =
         [\<lparr>bid = Some 0, room = ''r1'', date = 1704067200000,
            startTime = 1704099600000, endTime = 1704103200000, status = ''approved''\<rparr>,
          \<lparr>bid = Some 1, room = ''r1'', date = 1704153600000,
            startTime = 1704186000000, endTime = 1704189600000, status = ''approved''\<rparr>,
          \<lparr>bid = Some 2, room = ''r1'', date = 1704240000000,
            startTime = 1704272400000, endTime = 1704276000000, status = ''approved''\<rparr>,
          \<lparr>bid = Some 3, room = ''r1'', date = 1704326400000,
            startTime = 1704358800000, endTime = 1704362400000, status = ''approved''\<rparr>],
       rooms = [''r1''], adminUsers = 1, nextId = 4\<rparr>)"
  by code_simp

section \<open>Weekly schedules on the admin route\<close>

text \<open>
  Claim C5. A weekly schedule with Monday enabled, from Monday 2024-01-01 until Monday
  2024-01-15: the claim has every day up to and including the end date visited, which gives
  three Mondays. The loop stops before the end date and creates two bookings, on
  2024-01-01 and 2024-01-08.
\<close>

theorem admin_weekly_stops_before_end_date:
  "adminPOST (Some ''admin'')
     \<lparr>req_room = ''r1'', req_title = ''lecture'', req_date = Some 1704067200000,
      req_startTime = None, req_endTime = None, req_status = None,
      req_repeatType = Weekly, req_repeatEndDate = Some 1705276800000,
      req_weeklySchedule = Some [(''monday'',
        \<lparr>ds_startTime = Some 1704099600000, ds_endTime = Some 1704103200000,
         enabled = True\<rparr>)]\<rparr>
     \<lparr>bookings = [], rooms = [''r1''], adminUsers = 1, nextId = 0\<rparr>
   = (AdminCreated 2,
      \<lparr>bookings =
         [\<lparr>bid = Some 0, room = ''r1'', date = 1704067200000,
            startTime = 1704099600000, endTime = 1704103200000, status = ''approved''\<rparr>,
          \<lparr>bid = Some 1, room = ''r1'', date = 1704672000000,
            startTime = 1704704400000, endTime = 1704708000000, status = ''approved''\<rparr>],
       rooms = [''r1''], adminUsers = 1, nextId = 2\<rparr>)
   \<and> getDay 1705276800000 = 1"
  by code_simp

section \<open>Windows inside one clock hour\<close>

text \<open>
  Claim C6. A non-repeating request of the admin route from 09:00 to 09:30: the start is
  before the end, and the claim has it pass validation. The handler compares the hours
  only and answers "End time must be after start time".
\<close>

theorem admin_rejects_half_hour_window:
  "adminPOST (Some ''admin'')
     \<lparr>req_room = ''r1'', req_title = ''meeting'', req_date = Some 1704067200000,
      req_startTime = Some 1704099600000, req_endTime = Some 1704101400000, req_status = None,
      req_repeatType = RepeatNone, req_repeatEndDate = None, req_weeklySchedule = None\<rparr>
     \<lparr>bookings = [], rooms = [''r1''], adminUsers = 1, nextId = 0\<rparr>
   = (EndBeforeStart, \<lparr>bookings = [], rooms = [''r1''], adminUsers = 1, nextId = 0\<rparr>)
   \<and> (1704099600000 :: int) < 1704101400000"
  by code_simp

section \<open>A repeat end date before the request date\<close>

text \<open>
  Claim C7, as stated: a daily request whose repeat end date is before the request date
  fails with an invalid-range error and never reports success after creating nothing. On
  the user route an admin's request from 2024-01-05 until 2024-01-01 is answered with
  success and an empty list of bookings.
\<close>

theorem reversed_range_reports_success:
  "userPOST (Some ''admin'')
     \<lparr>req_room = ''r1'', req_title = ''lecture'', req_date = Some 1704412800000,
      req_startTime = Some 1704445200000, req_endTime = Some 1704448800000, req_status = None,
      req_repeatType = Daily, req_repeatEndDate = Some 1704067200000,
      req_weeklySchedule = None\<rparr>
     \<lparr>bookings = [], rooms = [''r1''], adminUsers = 1, nextId = 0\<rparr>
   = (UserCreated [] ''approved'',
      \<lparr>bookings = [], rooms = [''r1''], adminUsers = 1, nextId = 0\<rparr>)"
  by code_simp

text \<open>
  Claim C7, amended. Neither route compares the two dates, and such a request is not
  rejected as an invalid range. On the user route it is iterated zero times and nothing is
  written; when the booking is approved at once (the requester is an admin), or there is no
  admin user to notify, the answer is 201 with no bookings. On the admin route the batch is
  the initial booking alone: unless it conflicts it is inserted, and the answer is success
  with a count of one.
\<close>

theorem reversed_daily_range:
  "(userPrepare session req = Inr base \<and> req_repeatType req = Daily
      \<and> req_repeatEndDate req = Some u \<and> u < date base
    \<longrightarrow> snd (userPOST session req d) = d
        \<and> (status base = ''approved'' \<or> adminUsers d = 0
           \<longrightarrow> fst (userPOST session req d) = UserCreated [] (status base)))
   \<and> (adminPrepare session req d = Inr bs \<and> req_repeatType req = Daily
      \<and> req_repeatEndDate req = Some u \<and> req_date req = Some dt \<and> u < dt
    \<longrightarrow> length bs = 1
        \<and> (statusCode (fst (adminPOST session req d)) = 409
           \<or> adminPOST session req d = (AdminCreated 1, insertMany d (afterChecks bs))))"
  using user_reversed_range [of session req base u d] admin_reversed_range [of session req d bs u dt]
  by blast

theorem reversed_daily_range_witness:
  "userPOST (Some ''professor'')
     \<lparr>req_room = ''r1'', req_title = ''lecture'', req_date = Some 1704412800000,
      req_startTime = Some 1704445200000, req_endTime = Some 1704448800000, req_status = None,
      req_repeatType = Daily, req_repeatEndDate = Some 1704067200000,
      req_weeklySchedule = None\<rparr>
     \<lparr>bookings = [], rooms = [''r1''], adminUsers = 0, nextId = 0\<rparr>
   = (UserCreated [] ''pending'',
      \<lparr>bookings = [], rooms = [''r1''], adminUsers = 0, nextId = 0\<rparr>)
   \<and> adminPOST (Some ''admin'')
     \<lparr>req_room = ''r1'', req_title = ''lecture'', req_date = Some 1704412800000,
      req_startTime = Some 1704445200000, req_endTime = Some 1704448800000, req_status = None,
      req_repeatType = Daily, req_repeatEndDate = Some 1704067200000,
      req_weeklySchedule = None\<rparr>
     \<lparr>bookings = [], rooms = [''r1''], adminUsers = 0, nextId = 0\<rparr>
   = (AdminCreated 1,
      \<lparr>bookings = [\<lparr>bid = Some 0, room = ''r1'', date = 1704412800000,
         startTime = 1704445200000, endTime = 1704448800000, status = ''approved''\<rparr>],
       rooms = [''r1''], adminUsers = 0, nextId = 1\<rparr>)"
proof -
  let ?req = "\<lparr>req_room = ''r1'', req_title = ''lecture'', req_date = Some 1704412800000,
      req_startTime = Some 1704445200000, req_endTime = Some 1704448800000, req_status = None,
      req_repeatType = Daily, req_repeatEndDate = Some 1704067200000,
      req_weeklySchedule = None\<rparr>"
  let ?d = "\<lparr>bookings = [], rooms = [''r1''], adminUsers = 0, nextId = 0\<rparr>"
  let ?base = "\<lparr>bid = None, room = ''r1'', date = 1704412800000,
         startTime = 1704445200000, endTime = 1704448800000, status = ''pending''\<rparr>"
  let ?bs = "[\<lparr>bid = None, room = ''r1'', date = 1704412800000,
         startTime = 1704445200000, endTime = 1704448800000, status = ''approved''\<rparr>]"
  have p: "userPrepare (Some ''professor'') ?req = Inr ?base"
    by code_simp
  have q: "adminPrepare (Some ''admin'') ?req ?d = Inr ?bs"
    by code_simp
  have n: "statusCode (fst (adminPOST (Some ''admin'') ?req ?d)) \<noteq> 409"
    by code_simp
  have i: "insertMany ?d (afterChecks ?bs)
           = \<lparr>bookings = [\<lparr>bid = Some 0, room = ''r1'', date = 1704412800000,
         startTime = 1704445200000, endTime = 1704448800000, status = ''approved''\<rparr>],
       rooms = [''r1''], adminUsers = 0, nextId = 1\<rparr>"
    by code_simp
  have u: "snd (userPOST (Some ''professor'') ?req ?d) = ?d
           \<and> fst (userPOST (Some ''professor'') ?req ?d) = UserCreated [] ''pending''"
    using reversed_daily_range
      [of "Some ''professor''" ?req ?base 1704067200000 ?d ?bs 1704412800000] p
    by simp
  have a: "adminPOST (Some ''admin'') ?req ?d = (AdminCreated 1, insertMany ?d (afterChecks ?bs))"
    using reversed_daily_range
      [of "Some ''admin''" ?req ?base 1704067200000 ?d ?bs 1704412800000] q n
    by simp
  show ?thesis
    using u a i by (simp add: prod_eq_iff)
qed

section \<open>The horizon of a repeat\<close>

text \<open>
  Claim C8, as stated: a request whose repeat end date lies beyond a cap of about two years
  fails with a range error instead of expanding. A daily request of the user route from
  2024-01-01 until 2027-01-01 is answered with success and stores 1097 bookings.
\<close>

theorem three_year_daily_request_is_expanded:
  "statusCode (fst (userPOST (Some ''admin'')
      \<lparr>req_room = ''r1'', req_title = ''lecture'', req_date = Some 1704067200000,
       req_startTime = Some 1704099600000, req_endTime = Some 1704103200000, req_status = None,
       req_repeatType = Daily, req_repeatEndDate = Some 1798761600000,
       req_weeklySchedule = None\<rparr>
      \<lparr>bookings = [], rooms = [''r1''], adminUsers = 1, nextId = 0\<rparr>)) = 201
   \<and> length (bookings (snd (userPOST (Some ''admin'')
      \<lparr>req_room = ''r1'', req_title = ''lecture'', req_date = Some 1704067200000,
       req_startTime = Some 1704099600000, req_endTime = Some 1704103200000, req_status = None,
       req_repeatType = Daily, req_repeatEndDate = Some 1798761600000,
       req_weeklySchedule = None\<rparr>
      \<lparr>bookings = [], rooms = [''r1''], adminUsers = 1, nextId = 0\<rparr>))) = 1097"
proof -
  let ?req = "\<lparr>req_room = ''r1'', req_title = ''lecture'', req_date = Some 1704067200000,
       req_startTime = Some 1704099600000, req_endTime = Some 1704103200000, req_status = None,
       req_repeatType = Daily, req_repeatEndDate = Some 1798761600000,
       req_weeklySchedule = None\<rparr>"
  let ?base = "\<lparr>bid = None, room = ''r1'', date = 1704067200000,
         startTime = 1704099600000, endTime = 1704103200000, status = ''approved''\<rparr>"
  have p: "userPrepare (Some ''admin'') ?req = Inr ?base"
    by code_simp
  have n: "nat ((1798761600000 - 1704067200000) div stepMs Daily) + 1 = 1097"
    by (simp add: msPerDay_def)
  show ?thesis
    using user_repeat_count [where session = "Some ''admin''" and req = ?req and base = ?base
        and u = 1798761600000
        and d = "\<lparr>bookings = [], rooms = [''r1''], adminUsers = 1, nextId = 0\<rparr>"] p n
    by simp
qed

text \<open>
  Claim C8, amended. No request fails on account of how far its repeat end date lies. The
  early checks of the user route do not read the repeat end date; an early error of the
  admin route is the same for every repeat end date; and a daily or weekly request of the
  user route, in a room with no booking other than rejected ones, is answered 201 and
  stores \<open>(until - date) div step + 1\<close> bookings, the step being one day or seven.
\<close>

theorem expansion_has_no_cap:
  "userPrepare session (req\<lparr>req_repeatEndDate := x\<rparr>) = userPrepare session req
   \<and> (adminPrepare session (req\<lparr>req_repeatEndDate := Some u\<rparr>) d = Inl err
      \<longrightarrow> adminPrepare session (req\<lparr>req_repeatEndDate := Some u'\<rparr>) d = Inl err)
   \<and> (userPrepare session req = Inr base \<and> req_repeatType req \<noteq> RepeatNone
      \<and> req_repeatEndDate req = Some u \<and> date base \<le> u
      \<and> (\<forall>e\<in>set (bookings d). room e \<noteq> req_room req \<or> status e = ''rejected'')
      \<longrightarrow> statusCode (fst (userPOST session req d)) = 201
        \<and> length (bookings (snd (userPOST session req d)))
            = length (bookings d) + nat ((u - date base) div stepMs (req_repeatType req)) + 1)"
  using userPrepare_any_end [where session = session and req = req and x = x]
    adminPrepare_any_end [where session = session and req = req and u = u and d = d
      and err = err and u' = u']
    user_repeat_count [where session = session and req = req and base = base and u = u and d = d]
  by blast

theorem expansion_has_no_cap_witness:
  "adminPrepare (Some ''admin'')
      \<lparr>req_room = ''r2'', req_title = ''lecture'', req_date = Some 1704067200000,
       req_startTime = Some 1704099600000, req_endTime = Some 1704103200000, req_status = None,
       req_repeatType = Weekly, req_repeatEndDate = Some 1798761600000,
       req_weeklySchedule = Some []\<rparr>
      \<lparr>bookings = [\<lparr>bid = Some 0, room = ''r2'', date = 1704240000000,
         startTime = 1704272400000, endTime = 1704276000000, status = ''approved''\<rparr>],
       rooms = [''r1'', ''r2''], adminUsers = 1, nextId = 1\<rparr>
     = Inl NoEnabledDay
   \<and> statusCode (fst (userPOST (Some ''professor'')
      \<lparr>req_room = ''r1'', req_title = ''lecture'', req_date = Some 1704067200000,
       req_startTime = Some 1704099600000, req_endTime = Some 1704103200000, req_status = None,
       req_repeatType = Weekly, req_repeatEndDate = Some 1798761600000,
       req_weeklySchedule = None\<rparr>
      \<lparr>bookings = [\<lparr>bid = Some 0, room = ''r2'', date = 1704240000000,
         startTime = 1704272400000, endTime = 1704276000000, status = ''approved''\<rparr>],
       rooms = [''r1'', ''r2''], adminUsers = 1, nextId = 1\<rparr>)) = 201
   \<and> length (bookings (snd (userPOST (Some ''professor'')
      \<lparr>req_room = ''r1'', req_title = ''lecture'', req_date = Some 1704067200000,
       req_startTime = Some 1704099600000, req_endTime = Some 1704103200000, req_status = None,
       req_repeatType = Weekly, req_repeatEndDate = Some 1798761600000,
       req_weeklySchedule = None\<rparr>
      \<lparr>bookings = [\<lparr>bid = Some 0, room = ''r2'', date = 1704240000000,
         startTime = 1704272400000, endTime = 1704276000000, status = ''approved''\<rparr>],
       rooms = [''r1'', ''r2''], adminUsers = 1, nextId = 1\<rparr>))) = 158"
proof -
  let ?areq = "\<lparr>req_room = ''r2'', req_title = ''lecture'', req_date = Some 1704067200000,
       req_startTime = Some 1704099600000, req_endTime = Some 1704103200000, req_status = None,
       req_repeatType = Weekly, req_repeatEndDate = Some 1704412800000,
       req_weeklySchedule = Some []\<rparr>"
  let ?req = "\<lparr>req_room = ''r1'', req_title = ''lecture'', req_date = Some 1704067200000,
       req_startTime = Some 1704099600000, req_endTime = Some 1704103200000, req_status = None,
       req_repeatType = Weekly, req_repeatEndDate = Some 1798761600000,
       req_weeklySchedule = None\<rparr>"
  let ?d = "\<lparr>bookings = [\<lparr>bid = Some 0, room = ''r2'', date = 1704240000000,
         startTime = 1704272400000, endTime = 1704276000000, status = ''approved''\<rparr>],
       rooms = [''r1'', ''r2''], adminUsers = 1, nextId = 1\<rparr>"
  let ?base = "\<lparr>bid = None, room = ''r1'', date = 1704067200000,
         startTime = 1704099600000, endTime = 1704103200000, status = ''pending''\<rparr>"
  have a: "adminPrepare (Some ''admin'') (?areq\<lparr>req_repeatEndDate := Some 1704412800000\<rparr>) ?d
           = Inl NoEnabledDay"
    by code_simp
  have p: "userPrepare (Some ''professor'') ?req = Inr ?base"
    by code_simp
  have n: "nat ((1798761600000 - 1704067200000) div stepMs Weekly) + 1 = 157"
    by (simp add: msPerDay_def)
  have 1: "adminPrepare (Some ''admin'') (?areq\<lparr>req_repeatEndDate := Some 1798761600000\<rparr>) ?d
           = Inl NoEnabledDay"
    using expansion_has_no_cap [where session = "Some ''admin''" and req = ?areq
        and u = 1704412800000 and d = ?d and err = NoEnabledDay and u' = 1798761600000] a
    by blast
  have 2: "statusCode (fst (userPOST (Some ''professor'') ?req ?d)) = 201
     \<and> length (bookings (snd (userPOST (Some ''professor'') ?req ?d))) = 158"
    using expansion_has_no_cap [where session = "Some ''professor''" and req = ?req
        and u = 1798761600000 and d = ?d and base = ?base] p n
    by simp
  show ?thesis
    using 1 2 by simp
qed

section \<open>What a conflict response names\<close>

text \<open>
  Claim C9, as stated: every conflict response names the date and the time range of the
  blocking booking. It fails on the user route, where a non-repeating request that
  conflicts is answered with a message that names neither.
\<close>

theorem user_conflict_names_no_time:
  "fst (userPOST (Some ''professor'')
      \<lparr>req_room = ''r1'', req_title = ''seminar'', req_date = Some 1704240000000,
       req_startTime = Some 1704272400000, req_endTime = Some 1704276000000, req_status = None,
       req_repeatType = RepeatNone, req_repeatEndDate = None, req_weeklySchedule = None\<rparr>
      \<lparr>bookings = [\<lparr>bid = Some 0, room = ''r1'', date = 1704240000000,
         startTime = 1704274200000, endTime = 1704277800000, status = ''approved''\<rparr>],
       rooms = [''r1''], adminUsers = 1, nextId = 1\<rparr>)
   = ConflictSlot"
  by code_simp

text \<open>
  Claim C9, amended. Every 409 of the admin route names the date, start time and end time
  of the booking its check found for some booking of the batch: a stored booking of the
  requested room, not rejected, dated the midnight of that day, whose start and end time
  meet one of the two clauses of the query against the start and end of the booking to
  create. Every 409 of the user route comes from such a stored booking for one of the dates
  of the request, met against the requested hours and minutes on that date; for a
  repeating request the response names its date alone, and for a non-repeating request it
  is the fixed message that names neither date nor time.
\<close>

theorem conflict_messages:
  "(statusCode (fst (adminPOST session req d)) = 409 \<longrightarrow>
      (\<exists>bs. adminPrepare session req d = Inr bs
         \<and> (\<exists>b\<in>set bs. \<exists>c\<in>set (bookings d).
               room c = req_room req \<and> date c = setHours (date b) 0 0
               \<and> status c \<noteq> ''rejected''
               \<and> (startTime c < endTime b \<and> startTime b < endTime c
                    \<or> startTime b \<le> startTime c \<and> endTime c \<le> endTime b)
               \<and> fst (adminPOST session req d)
                    = ConflictBetween (date c) (startTime c) (endTime c))))
   \<and> (statusCode (fst (userPOST session req d)) = 409 \<longrightarrow>
      (\<exists>base. userPrepare session req = Inr base
         \<and> (\<exists>x\<in>set (userOccurrences req base). \<exists>c\<in>set (bookings d).
               room c = req_room req \<and> date c = setHours x 0 0 \<and> status c \<noteq> ''rejected''
               \<and> (startTime c < setHours x (getHours (endTime base)) (getMinutes (endTime base))
                      \<and> setHours x (getHours (startTime base)) (getMinutes (startTime base))
                          < endTime c
                    \<or> setHours x (getHours (startTime base)) (getMinutes (startTime base))
                          \<le> startTime c
                      \<and> endTime c
                          \<le> setHours x (getHours (endTime base)) (getMinutes (endTime base)))
               \<and> fst (userPOST session req d)
                    = (if req_repeatType req = RepeatNone then ConflictSlot
                       else ConflictOn (date c)))))"
  using admin_conflict_message [of session req d] user_conflict_message [of session req d]
  by blast

theorem conflict_messages_witness:
  "fst (adminPOST (Some ''admin'')
      \<lparr>req_room = ''r1'', req_title = ''lecture'', req_date = Some 1704067200000,
       req_startTime = Some 1704099600000, req_endTime = Some 1704103200000, req_status = None,
       req_repeatType = Daily, req_repeatEndDate = Some 1704499200000,
       req_weeklySchedule = None\<rparr>
      \<lparr>bookings = [\<lparr>bid = Some 0, room = ''r1'', date = 1704240000000,
         startTime = 1704274200000, endTime = 1704277800000, status = ''approved''\<rparr>],
       rooms = [''r1''], adminUsers = 1, nextId = 1\<rparr>)
     = ConflictBetween 1704240000000 1704274200000 1704277800000
   \<and> fst (userPOST (Some ''admin'')
      \<lparr>req_room = ''r1'', req_title = ''lecture'', req_date = Some 1704067200000,
       req_startTime = Some 1704099600000, req_endTime = Some 1704103200000, req_status = None,
       req_repeatType = Daily, req_repeatEndDate = Some 1704499200000,
       req_weeklySchedule = None\<rparr>
      \<lparr>bookings = [\<lparr>bid = Some 0, room = ''r1'', date = 1704240000000,
         startTime = 1704274200000, endTime = 1704277800000, status = ''approved''\<rparr>],
       rooms = [''r1''], adminUsers = 1, nextId = 1\<rparr>)
     = ConflictOn 1704240000000"
proof -
  let ?req = "\<lparr>req_room = ''r1'', req_title = ''lecture'', req_date = Some 1704067200000,
       req_startTime = Some 1704099600000, req_endTime = Some 1704103200000, req_status = None,
       req_repeatType = Daily, req_repeatEndDate = Some 1704499200000,
       req_weeklySchedule = None\<rparr>"
  let ?d = "\<lparr>bookings = [\<lparr>bid = Some 0, room = ''r1'', date = 1704240000000,
         startTime = 1704274200000, endTime = 1704277800000, status = ''approved''\<rparr>],
       rooms = [''r1''], adminUsers = 1, nextId = 1\<rparr>"
  have a: "statusCode (fst (adminPOST (Some ''admin'') ?req ?d)) = 409"
    by code_simp
  have u: "statusCode (fst (userPOST (Some ''admin'') ?req ?d)) = 409"
    by code_simp
  show ?thesis
    using conflict_messages [of "Some ''admin''" ?req ?d] a u by auto
qed

section \<open>The opening hours on the user route\<close>

text \<open>
  Claim C10. A request of the user route from 20:00 to 21:00:30: its end time is after
  21:00, and the claim has it rejected before any conflict check or write. The handler
  reads the hour and the minute of the end time only, lets it through and stores the
  booking.
\<close>

theorem user_accepts_end_past_nine:
  "userPOST (Some ''professor'')
     \<lparr>req_room = ''r1'', req_title = ''seminar'', req_date = Some 1704067200000,
      req_startTime = Some 1704139200000, req_endTime = Some 1704142830000, req_status = None,
      req_repeatType = RepeatNone, req_repeatEndDate = None, req_weeklySchedule = None\<rparr>
     \<lparr>bookings = [], rooms = [''r1''], adminUsers = 1, nextId = 0\<rparr>
   = (UserCreated
        [\<lparr>bid = Some 0, room = ''r1'', date = 1704067200000, startTime = 1704139200000,
           endTime = 1704142830000, status = ''pending''\<rparr>] ''pending'',
      \<lparr>bookings =
         [\<lparr>bid = Some 0, room = ''r1'', date = 1704067200000, startTime = 1704139200000,
            endTime = 1704142830000, status = ''pending''\<rparr>],
       rooms = [''r1''], adminUsers = 1, nextId = 1\<rparr>)
   \<and> 1704142830000 mod msPerDay = 21 * msPerHour + 30000"
  by code_simp

end
